theory Spec2Isabelle
  imports Complex_Main
begin

section \<open>The Black-Scholes pricing engine\<close>

text \<open>
  A shallow embedding of \<^verbatim>\<open>black_scholes_model.py\<close>. Python floats are modelled as
  exact reals: rounding, infinities and NaN are outside the model, so every statement
  below is one of exact-real arithmetic. The one float operation of the module that
  raises when its result leaves the binary64 range, the power \<^verbatim>\<open>volatility**2\<close>, keeps
  that failure in the model. The numpy functions \<^verbatim>\<open>exp\<close>,
  \<^verbatim>\<open>sqrt\<close>, \<^verbatim>\<open>log\<close> and the constant \<^verbatim>\<open>pi\<close> are the real
  \<^const>\<open>exp\<close>, \<^const>\<open>sqrt\<close>, \<^const>\<open>ln\<close> and \<^const>\<open>pi\<close>.

  The real logarithm, square root and division are total, where numpy yields \<^verbatim>\<open>nan\<close> or
  \<^verbatim>\<open>inf\<close> on a non-positive argument or a zero divisor. The inputs that pass validation
  keep every such argument positive, and the properties below are about engines built by
  \<^verbatim>\<open>__init__\<close>.
\<close>

subsection \<open>Data model\<close>

text \<open>The dataclass \<^verbatim>\<open>OptionGreeks\<close>.\<close>

record OptionGreeks =
  delta :: real
  gamma :: real
  theta :: real
  vega :: real
  rho :: real

text \<open>
  The attributes of a \<^verbatim>\<open>BlackScholes\<close> object. The five inputs are assigned first;
  \<^verbatim>\<open>_d1\<close> and \<^verbatim>\<open>_d2\<close> are added by the last statement of \<^verbatim>\<open>__init__\<close>, so the
  object is a record of the inputs extended by the two derived attributes.
\<close>

record option_inputs =
  time_to_maturity :: real
  strike_price :: real
  current_price :: real
  volatility :: real
  interest_rate :: real

record BlackScholes = option_inputs +
  d1 :: real
  d2 :: real

text \<open>
  Every \<^verbatim>\<open>raise\<close> of the module raises a \<^verbatim>\<open>ValueError\<close> carrying a message. Two
  operations on Python floats raise by themselves: the division
  \<^verbatim>\<open>current_price / strike_price\<close> raises \<^verbatim>\<open>ZeroDivisionError\<close> on a zero divisor, and
  the power \<^verbatim>\<open>volatility**2\<close> raises \<^verbatim>\<open>OverflowError\<close> when the square is too large
  for a float. (Float multiplication, addition and division by a non-zero float yield
  \<^verbatim>\<open>inf\<close> instead, and the other divisions have a numpy scalar as divisor; none of
  them raises.)
\<close>

datatype error = ValueError string | ZeroDivisionError | OverflowError

subsection \<open>The standard normal distribution\<close>

text \<open>
  Modelled from the spec: \<^verbatim>\<open>scipy.stats.norm.cdf\<close> is an external library function; the
  spec calls it the standard normal cumulative distribution function. It is the function
  with value \<open>1/2\<close> at \<open>0\<close> whose derivative is the standard normal density, given here
  by the everywhere convergent power series of that antiderivative.
\<close>

definition norm_cdf_term :: "real \<Rightarrow> nat \<Rightarrow> real" where
  "norm_cdf_term x n = (- 1) ^ n * x ^ (2 * n + 1) / (2 ^ n * fact n * real (2 * n + 1))"

definition norm_cdf :: "real \<Rightarrow> real" where
  "norm_cdf x = 1 / 2 + (\<Sum>n. norm_cdf_term x n) / sqrt (2 * pi)"

text \<open>
  The same series written as a power series \<open>\<Sum>n. c n * x ^ n\<close>: its coefficients, used
  only to differentiate \<^const>\<open>norm_cdf\<close>.
\<close>

definition norm_cdf_coeff :: "nat \<Rightarrow> real" where
  "norm_cdf_coeff n = (if odd n then (- 1) ^ (n div 2) / (2 ^ (n div 2) * fact (n div 2) * real n) else 0)"

text \<open>
  The standard normal probability density function as the spec names it (\<open>\<phi>\<close>); the
  code does not call a library for it but writes the expression out in
  \<^verbatim>\<open>calculate_greeks\<close>.
\<close>

definition norm_pdf :: "real \<Rightarrow> real" where
  "norm_pdf x = exp (- (x\<^sup>2 / 2)) / sqrt (2 * pi)"

subsection \<open>Construction\<close>

definition validate_inputs :: "real \<Rightarrow> real \<Rightarrow> real \<Rightarrow> real \<Rightarrow> real \<Rightarrow> error + unit" where
  "validate_inputs time_to_maturity' strike_price' current_price' volatility' interest_rate' =
    (if time_to_maturity' \<le> 0 then Inl (ValueError ''Time to maturity must be positive'')
     else if strike_price' \<le> 0 then Inl (ValueError ''Strike price must be positive'')
     else if current_price' \<le> 0 then Inl (ValueError ''Current price must be positive'')
     else if volatility' \<le> 0 then Inl (ValueError ''Volatility must be positive'')
     else if interest_rate' < 0 then Inl (ValueError ''Interest rate cannot be negative'')
     else Inr ())"

text \<open>
  \<^verbatim>\<open>_calculate_d1_d2\<close> runs inside \<^verbatim>\<open>__init__\<close>, after the five inputs have been
  validated and assigned and before \<^verbatim>\<open>_d1\<close> and \<^verbatim>\<open>_d2\<close> exist. The quotient
  \<^verbatim>\<open>current_price / strike_price\<close> is evaluated first, then \<^verbatim>\<open>volatility**2\<close>. The
  square of a binary64 number overflows exactly when it reaches \<open>2 ^ 1024\<close>, that is,
  when the number is \<open>2 ^ 512\<close> or more in absolute value: the largest float below
  \<open>2 ^ 512\<close> is \<open>2 ^ 512 - 2 ^ 459\<close>, and its square \<open>2 ^ 1024 - 2 ^ 972 + 2 ^ 918\<close>
  is below the largest finite float \<open>2 ^ 1024 - 2 ^ 971\<close>.
\<close>

definition calculate_d1_d2 :: "'a option_inputs_scheme \<Rightarrow> error + real \<times> real" where
  "calculate_d1_d2 self =
    (if strike_price self = 0 then Inl ZeroDivisionError
     else if 2 ^ 1024 \<le> (volatility self)\<^sup>2 then Inl OverflowError
     else
       (let d1' = (ln (current_price self / strike_price self)
                    + (interest_rate self + 0.5 * (volatility self)\<^sup>2) * time_to_maturity self)
                  / (volatility self * sqrt (time_to_maturity self));
            d2' = d1' - volatility self * sqrt (time_to_maturity self)
        in Inr (d1', d2')))"

definition init :: "real \<Rightarrow> real \<Rightarrow> real \<Rightarrow> real \<Rightarrow> real \<Rightarrow> error + BlackScholes" where
  "init time_to_maturity' strike_price' current_price' volatility' interest_rate' =
    (case validate_inputs time_to_maturity' strike_price' current_price' volatility' interest_rate' of
       Inl err \<Rightarrow> Inl err
     | Inr _ \<Rightarrow>
        (let self = \<lparr>time_to_maturity = time_to_maturity', strike_price = strike_price',
                     current_price = current_price', volatility = volatility',
                     interest_rate = interest_rate'\<rparr>
         in case calculate_d1_d2 self of
              Inl err \<Rightarrow> Inl err
            | Inr (d1', d2') \<Rightarrow>
                Inr \<lparr>time_to_maturity = time_to_maturity self, strike_price = strike_price self,
                     current_price = current_price self, volatility = volatility self,
                     interest_rate = interest_rate self, d1 = d1', d2 = d2'\<rparr>))"

subsection \<open>Queries\<close>

text \<open>
  A method receives the object and could assign to its attributes, so each query is
  modelled as returning its result together with the object it leaves behind. None of
  the three assigns to \<^verbatim>\<open>self\<close>.
\<close>

definition calculate_prices :: "BlackScholes \<Rightarrow> (real \<times> real) \<times> BlackScholes" where
  "calculate_prices self =
    (let discount_factor = exp (- interest_rate self * time_to_maturity self);
         call_price = current_price self * norm_cdf (d1 self)
                      - strike_price self * discount_factor * norm_cdf (d2 self);
         put_price = strike_price self * discount_factor * norm_cdf (- d2 self)
                     - current_price self * norm_cdf (- d1 self)
     in ((call_price, put_price), self))"

definition calculate_greeks :: "BlackScholes \<Rightarrow> (OptionGreeks \<times> OptionGreeks) \<times> BlackScholes" where
  "calculate_greeks self =
    (let discount_factor = exp (- interest_rate self * time_to_maturity self);
         sqrt_t = sqrt (time_to_maturity self);
         d1_pdf = exp (- ((d1 self)\<^sup>2) / 2) / sqrt (2 * pi);
         call_delta = norm_cdf (d1 self);
         gamma' = d1_pdf / (current_price self * volatility self * sqrt_t);
         call_theta = - (current_price self * d1_pdf * volatility self / (2 * sqrt_t))
                      - interest_rate self * strike_price self * discount_factor * norm_cdf (d2 self);
         vega' = current_price self * sqrt_t * d1_pdf;
         call_rho = strike_price self * time_to_maturity self * discount_factor * norm_cdf (d2 self);
         put_delta = call_delta - 1;
         put_theta = - (current_price self * d1_pdf * volatility self / (2 * sqrt_t))
                     + interest_rate self * strike_price self * discount_factor * norm_cdf (- d2 self);
         put_rho = - strike_price self * time_to_maturity self * discount_factor * norm_cdf (- d2 self);
         call_greeks = \<lparr>delta = call_delta, gamma = gamma', theta = call_theta, vega = vega', rho = call_rho\<rparr>;
         put_greeks = \<lparr>delta = put_delta, gamma = gamma', theta = put_theta, vega = vega', rho = put_rho\<rparr>
     in ((call_greeks, put_greeks), self))"

definition calculate_pnl ::
  "BlackScholes \<Rightarrow> real list \<Rightarrow> real \<Rightarrow> (error + real list \<times> real list) \<times> BlackScholes" where
  "calculate_pnl self spot_range purchase_price =
    (if purchase_price < 0 then (Inl (ValueError ''Purchase price cannot be negative''), self)
     else if length spot_range = 0 then (Inl (ValueError ''Spot range cannot be empty''), self)
     else
       (let call_pnl = map (\<lambda>s. max 0 (s - strike_price self) - purchase_price) spot_range;
            put_pnl = map (\<lambda>s. max 0 (strike_price self - s) - purchase_price) spot_range
        in (Inr (call_pnl, put_pnl), self)))"

section \<open>Properties\<close>

subsection \<open>The normal distribution function\<close>

text \<open>
  The series converges for every argument, the function is symmetric about \<open>(0, 1/2)\<close>,
  and it is the antiderivative of the density with value \<open>1/2\<close> at \<open>0\<close>, which determines
  it.
\<close>

lemma norm_cdf_term_bound:
  "norm (norm_cdf_term x n) \<le> \<bar>x\<bar> * (inverse (fact n) * (x\<^sup>2 / 2) ^ n)"
proof -
  have pw: "\<bar>x\<bar> ^ (2 * n) = (x\<^sup>2) ^ n"
    by (simp add: power_mult)
  have "norm (norm_cdf_term x n) = \<bar>x\<bar> * (inverse (fact n) * (x\<^sup>2 / 2) ^ n) / real (2 * n + 1)"
    unfolding norm_cdf_term_def real_norm_def abs_divide abs_mult power_abs power_add pw
    by (simp add: field_simps)
  also have "\<dots> \<le> \<bar>x\<bar> * (inverse (fact n) * (x\<^sup>2 / 2) ^ n) / 1"
    by (intro divide_left_mono) (auto intro!: mult_nonneg_nonneg)
  finally show ?thesis by simp
qed

lemma summable_norm_cdf_term: "summable (norm_cdf_term x)"
proof (rule summable_comparison_test')
  show "summable (\<lambda>n. \<bar>x\<bar> * (inverse (fact n) * (x\<^sup>2 / 2) ^ n))"
    by (rule summable_mult) (rule summable_exp)
  show "norm (norm_cdf_term x n) \<le> \<bar>x\<bar> * (inverse (fact n) * (x\<^sup>2 / 2) ^ n)" if "n \<ge> 0" for n
    by (rule norm_cdf_term_bound)
qed

lemma norm_cdf_term_minus: "norm_cdf_term (- x) n = - norm_cdf_term x n"
  by (simp add: norm_cdf_term_def)

lemma norm_cdf_minus: "norm_cdf (- x) = 1 - norm_cdf x"
proof -
  have "(\<Sum>n. norm_cdf_term (- x) n) = - (\<Sum>n. norm_cdf_term x n)"
    unfolding norm_cdf_term_minus by (rule suminf_minus) (rule summable_norm_cdf_term)
  then show ?thesis
    by (simp add: norm_cdf_def)
qed


lemma norm_cdf_coeff_odd: "norm_cdf_coeff (2 * m + 1) * x ^ (2 * m + 1) = norm_cdf_term x m"
  by (simp add: norm_cdf_coeff_def norm_cdf_term_def)

lemma strict_mono_odd: "strict_mono (\<lambda>m::nat. 2 * m + 1)"
  by (simp add: strict_mono_def)

lemma strict_mono_even: "strict_mono (\<lambda>m::nat. 2 * m)"
  by (simp add: strict_mono_def)

lemma norm_cdf_coeff_sums:
  "(\<lambda>n. norm_cdf_coeff n * x ^ n) sums (\<Sum>m. norm_cdf_term x m)"
proof -
  have zero: "norm_cdf_coeff n * x ^ n = 0" if "n \<notin> range (\<lambda>m::nat. 2 * m + 1)" for n
  proof -
    have "even n"
    proof (rule ccontr)
      assume "odd n"
      then obtain m where "n = 2 * m + 1" by (auto elim: oddE)
      with that show False by auto
    qed
    then show ?thesis by (simp add: norm_cdf_coeff_def)
  qed
  have "(\<lambda>m. norm_cdf_coeff (2 * m + 1) * x ^ (2 * m + 1)) sums (\<Sum>m. norm_cdf_term x m)"
    unfolding norm_cdf_coeff_odd using summable_norm_cdf_term by (rule summable_sums)
  then show ?thesis
    using sums_mono_reindex [of "\<lambda>m. 2 * m + 1" "\<lambda>n. norm_cdf_coeff n * x ^ n", OF strict_mono_odd zero]
    by simp
qed

lemma diffs_norm_cdf_coeff:
  "diffs norm_cdf_coeff n = (if even n then (- 1) ^ (n div 2) / (2 ^ (n div 2) * fact (n div 2)) else 0)"
  by (simp add: diffs_def norm_cdf_coeff_def del: of_nat_Suc)

lemma exp_series_term:
  "(- 1) ^ m / (2 ^ m * fact m) * y ^ m = (- (y / 2)) ^ m /\<^sub>R fact m" for y :: real
proof -
  have h: "(- (y / 2)) ^ m = (- 1) ^ m * (y ^ m / 2 ^ m)"
    by (simp only: power_minus [of "y / 2"] power_divide)
  have "(- (y / 2)) ^ m /\<^sub>R fact m = inverse (fact m) * ((- 1) ^ m * (y ^ m / 2 ^ m))"
    unfolding h by (simp only: real_scaleR_def)
  also have "\<dots> = (- 1) ^ m / (2 ^ m * fact m) * y ^ m"
    by (simp add: field_simps)
  finally show ?thesis by simp
qed

lemma diffs_norm_cdf_coeff_sums:
  "(\<lambda>n. diffs norm_cdf_coeff n * x ^ n) sums exp (- (x\<^sup>2 / 2))"
proof -
  have zero: "diffs norm_cdf_coeff n * x ^ n = 0" if "n \<notin> range (\<lambda>m::nat. 2 * m)" for n
  proof -
    have "odd n" using that by (auto elim: evenE)
    then show ?thesis by (simp add: diffs_norm_cdf_coeff)
  qed
  have eq: "diffs norm_cdf_coeff (2 * m) * x ^ (2 * m) = (- (x\<^sup>2 / 2)) ^ m /\<^sub>R fact m" for m
  proof -
    have "diffs norm_cdf_coeff (2 * m) = (- 1) ^ m / (2 ^ m * fact m)"
      by (simp add: diffs_norm_cdf_coeff)
    then have "diffs norm_cdf_coeff (2 * m) * x ^ (2 * m) = (- 1) ^ m / (2 ^ m * fact m) * (x\<^sup>2) ^ m"
      by (simp only: power_mult)
    also have "\<dots> = (- (x\<^sup>2 / 2)) ^ m /\<^sub>R fact m"
      by (rule exp_series_term)
    finally show ?thesis .
  qed
  have "(\<lambda>m. diffs norm_cdf_coeff (2 * m) * x ^ (2 * m)) sums exp (- (x\<^sup>2 / 2))"
    unfolding eq by (rule exp_converges)
  then show ?thesis
    using sums_mono_reindex [of "\<lambda>m. 2 * m" "\<lambda>n. diffs norm_cdf_coeff n * x ^ n", OF strict_mono_even zero]
    by simp
qed

lemma DERIV_norm_cdf: "(norm_cdf has_field_derivative norm_pdf x) (at x)"
proof -
  have series: "(\<Sum>m. norm_cdf_term y m) = (\<Sum>n. norm_cdf_coeff n * y ^ n)" for y
    using norm_cdf_coeff_sums [of y] by (simp add: sums_iff)
  have "((\<lambda>y. \<Sum>n. norm_cdf_coeff n * y ^ n) has_field_derivative
          (\<Sum>n. diffs norm_cdf_coeff n * x ^ n)) (at x)"
    by (rule termdiffs_strong_converges_everywhere) (use norm_cdf_coeff_sums in \<open>rule sums_summable\<close>)
  moreover have "(\<Sum>n. diffs norm_cdf_coeff n * x ^ n) = exp (- (x\<^sup>2 / 2))"
    using diffs_norm_cdf_coeff_sums [of x] by (simp add: sums_iff)
  ultimately have "((\<lambda>y. \<Sum>m. norm_cdf_term y m) has_field_derivative exp (- (x\<^sup>2 / 2))) (at x)"
    by (simp add: series)
  then have "((\<lambda>y. 1 / 2 + (\<Sum>m. norm_cdf_term y m) / sqrt (2 * pi)) has_field_derivative
               exp (- (x\<^sup>2 / 2)) / sqrt (2 * pi)) (at x)"
    by (intro DERIV_add [where D = 0, simplified] DERIV_const DERIV_cdivide)
  then show ?thesis
    by (simp add: norm_cdf_def [abs_def] norm_pdf_def)
qed

lemma norm_cdf_0: "norm_cdf 0 = 1 / 2"
  by (simp add: norm_cdf_def norm_cdf_term_def)

subsection \<open>Construction on valid and invalid inputs\<close>


lemma init_valid:
  assumes "0 < T" "0 < K" "0 < S" "0 < v" "0 \<le> r" "v\<^sup>2 < 2 ^ 1024"
  shows "init T K S v r =
    Inr \<lparr>time_to_maturity = T, strike_price = K, current_price = S, volatility = v,
         interest_rate = r,
         d1 = (ln (S / K) + (r + 0.5 * v\<^sup>2) * T) / (v * sqrt T),
         d2 = (ln (S / K) + (r + 0.5 * v\<^sup>2) * T) / (v * sqrt T) - v * sqrt T\<rparr>"
  using assms by (simp add: init_def validate_inputs_def calculate_d1_d2_def Let_def)


lemma init_Inr_valid:
  assumes "init T K S v r = Inr self"
  shows "0 < T \<and> 0 < K \<and> 0 < S \<and> 0 < v \<and> 0 \<le> r \<and> v\<^sup>2 < 2 ^ 1024"
  using assms
  by (auto simp: init_def validate_inputs_def calculate_d1_d2_def Let_def split: if_splits)

lemma init_Inr_fields:
  assumes "init T K S v r = Inr self"
  shows "time_to_maturity self = T" "strike_price self = K" "current_price self = S"
    "volatility self = v" "interest_rate self = r"
  using init_Inr_valid [OF assms] init_valid [of T K S v r] assms by auto

lemma sorted_call_pnl: "sorted xs \<Longrightarrow> sorted (map (\<lambda>s::real. max 0 (s - K) - p) xs)"
  by (induction xs) auto

lemma sorted_put_pnl:
  "sorted xs \<Longrightarrow> sorted_wrt (\<lambda>a b. b \<le> a) (map (\<lambda>s::real. max 0 (K - s) - p) xs)"
  by (induction xs) auto

subsection \<open>Prices\<close>

text \<open>
  C1: for an engine built by a successful construction from \<open>T, K, S, v, r\<close>,
  \<^verbatim>\<open>calculate_prices\<close> (which takes the engine alone and has no failing branch) returns
  the call price \<open>S * \<Phi>(d1) - K * exp (- r * T) * \<Phi>(d2)\<close> and the put price
  \<open>K * exp (- r * T) * \<Phi>(- d2) - S * \<Phi>(- d1)\<close>, with \<open>d1\<close>, \<open>d2\<close> the values
  stored in the engine, and leaves the engine as it was.
\<close>

theorem calculate_prices_formula:
  assumes "init T K S v r = Inr self"
  shows "calculate_prices self =
    ((S * norm_cdf (d1 self) - K * exp (- r * T) * norm_cdf (d2 self),
      K * exp (- r * T) * norm_cdf (- d2 self) - S * norm_cdf (- d1 self)), self)"
  using init_Inr_fields [OF assms] by (simp add: calculate_prices_def Let_def)

theorem calculate_prices_formula_witness:
  "init 1 100 100 (1 / 5) (1 / 20) =
     Inr \<lparr>time_to_maturity = 1, strike_price = 100, current_price = 100, volatility = 1 / 5,
       interest_rate = 1 / 20, d1 = 7 / 20, d2 = 3 / 20\<rparr>
   \<and> calculate_prices \<lparr>time_to_maturity = 1, strike_price = 100, current_price = 100, volatility = 1 / 5,
       interest_rate = 1 / 20, d1 = 7 / 20, d2 = 3 / 20\<rparr> =
     ((100 * norm_cdf (7 / 20) - 100 * exp (- (1 / 20)) * norm_cdf (3 / 20),
       100 * exp (- (1 / 20)) * norm_cdf (- (3 / 20)) - 100 * norm_cdf (- (7 / 20))),
      \<lparr>time_to_maturity = 1, strike_price = 100, current_price = 100, volatility = 1 / 5,
       interest_rate = 1 / 20, d1 = 7 / 20, d2 = 3 / 20\<rparr>)"
proof -
  have h: "init 1 100 100 (1 / 5) (1 / 20) =
     Inr \<lparr>time_to_maturity = 1, strike_price = 100, current_price = 100, volatility = 1 / 5,
       interest_rate = 1 / 20, d1 = 7 / 20, d2 = 3 / 20\<rparr>"
    by (simp add: init_def validate_inputs_def calculate_d1_d2_def Let_def power2_eq_square)
  show ?thesis
    using h calculate_prices_formula [OF h] by simp
qed

text \<open>
  C2: a successful construction from \<open>T, K, S, v, r\<close> (these are then strictly positive,
  \<open>r\<close> non-negative) stores \<open>d1 = (ln (S / K) + (r + 0.5 * v\<^sup>2) * T) / (v * sqrt T)\<close>
  and \<open>d2 = d1 - v * sqrt T\<close> in the engine. Every query returns the engine unchanged,
  so the two values stay fixed, and every query reads the stored values instead of
  deriving them again: with other values \<open>a\<close>, \<open>b\<close> in their place, prices and Greeks
  are those of \<open>a\<close> and \<open>b\<close>.
\<close>

theorem init_derives_d1_d2:
  assumes "init T K S v r = Inr self"
  shows "0 < T \<and> 0 < K \<and> 0 < S \<and> 0 < v \<and> 0 \<le> r
    \<and> d1 self = (ln (S / K) + (r + 0.5 * v\<^sup>2) * T) / (v * sqrt T)
    \<and> d2 self = d1 self - v * sqrt T
    \<and> snd (calculate_prices self) = self
    \<and> snd (calculate_greeks self) = self
    \<and> (\<forall>spot_range purchase_price. snd (calculate_pnl self spot_range purchase_price) = self)
    \<and> (\<forall>a b. fst (calculate_prices (self\<lparr>d1 := a, d2 := b\<rparr>)) =
          (S * norm_cdf a - K * exp (- r * T) * norm_cdf b,
           K * exp (- r * T) * norm_cdf (- b) - S * norm_cdf (- a)))
    \<and> (\<forall>a b. fst (calculate_greeks (self\<lparr>d1 := a, d2 := b\<rparr>)) =
          (\<lparr>delta = norm_cdf a,
            gamma = norm_pdf a / (S * v * sqrt T),
            theta = - (S * norm_pdf a * v / (2 * sqrt T)) - r * K * exp (- r * T) * norm_cdf b,
            vega = S * sqrt T * norm_pdf a,
            rho = K * T * exp (- r * T) * norm_cdf b\<rparr>,
           \<lparr>delta = norm_cdf a - 1,
            gamma = norm_pdf a / (S * v * sqrt T),
            theta = - (S * norm_pdf a * v / (2 * sqrt T)) + r * K * exp (- r * T) * norm_cdf (- b),
            vega = S * sqrt T * norm_pdf a,
            rho = - K * T * exp (- r * T) * norm_cdf (- b)\<rparr>))"
proof -
  have valid: "0 < T" "0 < K" "0 < S" "0 < v" "0 \<le> r" "v\<^sup>2 < 2 ^ 1024"
    using init_Inr_valid [OF assms] by simp_all
  have self: "self =
    \<lparr>time_to_maturity = T, strike_price = K, current_price = S, volatility = v,
     interest_rate = r,
     d1 = (ln (S / K) + (r + 0.5 * v\<^sup>2) * T) / (v * sqrt T),
     d2 = (ln (S / K) + (r + 0.5 * v\<^sup>2) * T) / (v * sqrt T) - v * sqrt T\<rparr>"
    using assms init_valid [OF valid] by simp
  show ?thesis
    unfolding self using valid(1-5)
    by (simp add: calculate_prices_def calculate_greeks_def calculate_pnl_def norm_pdf_def Let_def)
qed

theorem init_derives_d1_d2_witness:
  "init 1 100 100 (1 / 5) (1 / 20) =
     Inr \<lparr>time_to_maturity = 1, strike_price = 100, current_price = 100, volatility = 1 / 5,
       interest_rate = 1 / 20, d1 = 7 / 20, d2 = 3 / 20\<rparr>
   \<and> d1 \<lparr>time_to_maturity = 1, strike_price = 100, current_price = 100, volatility = 1 / 5,
       interest_rate = 1 / 20, d1 = 7 / 20, d2 = 3 / 20\<rparr> =
       (ln (100 / 100) + (1 / 20 + 0.5 * (1 / 5)\<^sup>2) * 1) / (1 / 5 * sqrt 1)
   \<and> d2 \<lparr>time_to_maturity = 1, strike_price = 100, current_price = 100, volatility = 1 / 5,
       interest_rate = 1 / 20, d1 = 7 / 20, d2 = 3 / 20\<rparr> =
       d1 \<lparr>time_to_maturity = 1, strike_price = 100, current_price = 100, volatility = 1 / 5,
       interest_rate = 1 / 20, d1 = 7 / 20, d2 = 3 / 20\<rparr> - 1 / 5 * sqrt 1
   \<and> snd (calculate_prices \<lparr>time_to_maturity = 1, strike_price = 100, current_price = 100, volatility = 1 / 5,
       interest_rate = 1 / 20, d1 = 7 / 20, d2 = 3 / 20\<rparr>) =
       \<lparr>time_to_maturity = 1, strike_price = 100, current_price = 100, volatility = 1 / 5,
       interest_rate = 1 / 20, d1 = 7 / 20, d2 = 3 / 20\<rparr>
   \<and> (\<forall>a b. fst (calculate_prices (\<lparr>time_to_maturity = 1, strike_price = 100, current_price = 100, volatility = 1 / 5,
       interest_rate = 1 / 20, d1 = 7 / 20, d2 = 3 / 20\<rparr>\<lparr>d1 := a, d2 := b\<rparr>)) =
          (100 * norm_cdf a - 100 * exp (- (1 / 20) * 1) * norm_cdf b,
           100 * exp (- (1 / 20) * 1) * norm_cdf (- b) - 100 * norm_cdf (- a)))"
proof -
  have h: "init 1 100 100 (1 / 5) (1 / 20) =
     Inr \<lparr>time_to_maturity = 1, strike_price = 100, current_price = 100, volatility = 1 / 5,
       interest_rate = 1 / 20, d1 = 7 / 20, d2 = 3 / 20\<rparr>"
    by (simp add: init_def validate_inputs_def calculate_d1_d2_def Let_def power2_eq_square)
  show ?thesis
    using h init_derives_d1_d2 [OF h] by blast
qed

text \<open>
  C3 (put-call parity): for an engine built by a successful construction from
  \<open>T, K, S, v, r\<close>, the call and put price returned by \<^verbatim>\<open>calculate_prices\<close> satisfy
  \<open>call - put = S - K * exp (- r * T)\<close>, exactly, in real arithmetic.
\<close>

theorem put_call_parity:
  assumes "init T K S v r = Inr self"
    and "fst (calculate_prices self) = (call_price, put_price)"
  shows "call_price - put_price = S - K * exp (- r * T)"
proof -
  have "call_price = S * norm_cdf (d1 self) - K * exp (- r * T) * norm_cdf (d2 self)"
    and "put_price = K * exp (- r * T) * (1 - norm_cdf (d2 self)) - S * (1 - norm_cdf (d1 self))"
    using assms init_Inr_fields [OF assms(1)]
    by (simp_all add: calculate_prices_def Let_def norm_cdf_minus)
  then show ?thesis
    by (simp add: algebra_simps)
qed

theorem put_call_parity_witness:
  "init 1 100 100 (1 / 5) (1 / 20) =
     Inr \<lparr>time_to_maturity = 1, strike_price = 100, current_price = 100, volatility = 1 / 5,
       interest_rate = 1 / 20, d1 = 7 / 20, d2 = 3 / 20\<rparr>
   \<and> fst (calculate_prices \<lparr>time_to_maturity = 1, strike_price = 100, current_price = 100, volatility = 1 / 5,
       interest_rate = 1 / 20, d1 = 7 / 20, d2 = 3 / 20\<rparr>) =
      (100 * norm_cdf (7 / 20) - 100 * exp (- (1 / 20)) * norm_cdf (3 / 20),
       100 * exp (- (1 / 20)) * norm_cdf (- (3 / 20)) - 100 * norm_cdf (- (7 / 20)))
   \<and> (100 * norm_cdf (7 / 20) - 100 * exp (- (1 / 20)) * norm_cdf (3 / 20))
       - (100 * exp (- (1 / 20)) * norm_cdf (- (3 / 20)) - 100 * norm_cdf (- (7 / 20)))
       = 100 - 100 * exp (- (1 / 20) * 1)"
proof -
  have h: "init 1 100 100 (1 / 5) (1 / 20) =
     Inr \<lparr>time_to_maturity = 1, strike_price = 100, current_price = 100, volatility = 1 / 5,
       interest_rate = 1 / 20, d1 = 7 / 20, d2 = 3 / 20\<rparr>"
    by (simp add: init_def validate_inputs_def calculate_d1_d2_def Let_def power2_eq_square)
  have p: "fst (calculate_prices \<lparr>time_to_maturity = 1, strike_price = 100, current_price = 100, volatility = 1 / 5,
       interest_rate = 1 / 20, d1 = 7 / 20, d2 = 3 / 20\<rparr>) =
      (100 * norm_cdf (7 / 20) - 100 * exp (- (1 / 20)) * norm_cdf (3 / 20),
       100 * exp (- (1 / 20)) * norm_cdf (- (3 / 20)) - 100 * norm_cdf (- (7 / 20)))"
    by (simp add: calculate_prices_def Let_def)
  show ?thesis
    using h p put_call_parity [OF h p] by blast
qed

subsection \<open>Validation\<close>




subsection \<open>Greeks\<close>

text \<open>
  C5: for an engine built by a successful construction from \<open>T, K, S, v, r\<close>,
  \<^verbatim>\<open>calculate_greeks\<close> returns the call and put Greeks of the stated formulas, with
  \<open>\<Phi>\<close> the standard normal distribution function and \<open>\<phi>\<close> the standard normal density
  at the stored \<open>d1\<close>, \<open>d2\<close>; the result is determined by the engine, which is returned
  unchanged.
\<close>

theorem calculate_greeks_formula:
  assumes "init T K S v r = Inr self"
  shows "calculate_greeks self =
    ((\<lparr>delta = norm_cdf (d1 self),
       gamma = norm_pdf (d1 self) / (S * v * sqrt T),
       theta = - (S * norm_pdf (d1 self) * v) / (2 * sqrt T)
               - r * K * exp (- r * T) * norm_cdf (d2 self),
       vega = S * sqrt T * norm_pdf (d1 self),
       rho = K * T * exp (- r * T) * norm_cdf (d2 self)\<rparr>,
      \<lparr>delta = norm_cdf (d1 self) - 1,
       gamma = norm_pdf (d1 self) / (S * v * sqrt T),
       theta = - (S * norm_pdf (d1 self) * v) / (2 * sqrt T)
               + r * K * exp (- r * T) * norm_cdf (- d2 self),
       vega = S * sqrt T * norm_pdf (d1 self),
       rho = - K * T * exp (- r * T) * norm_cdf (- d2 self)\<rparr>), self)"
  using init_Inr_fields [OF assms]
  by (simp add: calculate_greeks_def norm_pdf_def Let_def)

theorem calculate_greeks_formula_witness:
  "init 1 100 100 (1 / 5) (1 / 20) =
     Inr \<lparr>time_to_maturity = 1, strike_price = 100, current_price = 100, volatility = 1 / 5,
       interest_rate = 1 / 20, d1 = 7 / 20, d2 = 3 / 20\<rparr>
   \<and> calculate_greeks \<lparr>time_to_maturity = 1, strike_price = 100, current_price = 100, volatility = 1 / 5,
       interest_rate = 1 / 20, d1 = 7 / 20, d2 = 3 / 20\<rparr> =
    ((\<lparr>delta = norm_cdf (7 / 20),
       gamma = norm_pdf (7 / 20) / (100 * (1 / 5) * sqrt 1),
       theta = - (100 * norm_pdf (7 / 20) * (1 / 5)) / (2 * sqrt 1)
               - 1 / 20 * 100 * exp (- (1 / 20) * 1) * norm_cdf (3 / 20),
       vega = 100 * sqrt 1 * norm_pdf (7 / 20),
       rho = 100 * 1 * exp (- (1 / 20) * 1) * norm_cdf (3 / 20)\<rparr>,
      \<lparr>delta = norm_cdf (7 / 20) - 1,
       gamma = norm_pdf (7 / 20) / (100 * (1 / 5) * sqrt 1),
       theta = - (100 * norm_pdf (7 / 20) * (1 / 5)) / (2 * sqrt 1)
               + 1 / 20 * 100 * exp (- (1 / 20) * 1) * norm_cdf (- (3 / 20)),
       vega = 100 * sqrt 1 * norm_pdf (7 / 20),
       rho = - 100 * 1 * exp (- (1 / 20) * 1) * norm_cdf (- (3 / 20))\<rparr>),
     \<lparr>time_to_maturity = 1, strike_price = 100, current_price = 100, volatility = 1 / 5,
       interest_rate = 1 / 20, d1 = 7 / 20, d2 = 3 / 20\<rparr>)"
proof -
  have h: "init 1 100 100 (1 / 5) (1 / 20) =
     Inr \<lparr>time_to_maturity = 1, strike_price = 100, current_price = 100, volatility = 1 / 5,
       interest_rate = 1 / 20, d1 = 7 / 20, d2 = 3 / 20\<rparr>"
    by (simp add: init_def validate_inputs_def calculate_d1_d2_def Let_def power2_eq_square)
  show ?thesis
    using h calculate_greeks_formula [OF h] by simp
qed

text \<open>
  C6 (Greek symmetry): the call and put Greeks returned by one \<^verbatim>\<open>calculate_greeks\<close>
  call on a validly constructed engine have the same gamma and the same vega, and the
  call delta minus the put delta is exactly \<open>1\<close>.
\<close>

theorem greek_symmetry:
  assumes "init T K S v r = Inr self"
    and "fst (calculate_greeks self) = (call_greeks, put_greeks)"
  shows "gamma call_greeks = gamma put_greeks \<and> vega call_greeks = vega put_greeks
    \<and> delta call_greeks - delta put_greeks = 1"
  using assms(2) by (auto simp: calculate_greeks_def Let_def)

theorem greek_symmetry_witness:
  "init 1 100 100 (1 / 5) (1 / 20) =
     Inr \<lparr>time_to_maturity = 1, strike_price = 100, current_price = 100, volatility = 1 / 5,
       interest_rate = 1 / 20, d1 = 7 / 20, d2 = 3 / 20\<rparr>
   \<and> gamma (fst (fst (calculate_greeks \<lparr>time_to_maturity = 1, strike_price = 100, current_price = 100, volatility = 1 / 5,
       interest_rate = 1 / 20, d1 = 7 / 20, d2 = 3 / 20\<rparr>)))
     = gamma (snd (fst (calculate_greeks \<lparr>time_to_maturity = 1, strike_price = 100, current_price = 100, volatility = 1 / 5,
       interest_rate = 1 / 20, d1 = 7 / 20, d2 = 3 / 20\<rparr>)))
   \<and> vega (fst (fst (calculate_greeks \<lparr>time_to_maturity = 1, strike_price = 100, current_price = 100, volatility = 1 / 5,
       interest_rate = 1 / 20, d1 = 7 / 20, d2 = 3 / 20\<rparr>)))
     = vega (snd (fst (calculate_greeks \<lparr>time_to_maturity = 1, strike_price = 100, current_price = 100, volatility = 1 / 5,
       interest_rate = 1 / 20, d1 = 7 / 20, d2 = 3 / 20\<rparr>)))
   \<and> delta (fst (fst (calculate_greeks \<lparr>time_to_maturity = 1, strike_price = 100, current_price = 100, volatility = 1 / 5,
       interest_rate = 1 / 20, d1 = 7 / 20, d2 = 3 / 20\<rparr>)))
     - delta (snd (fst (calculate_greeks \<lparr>time_to_maturity = 1, strike_price = 100, current_price = 100, volatility = 1 / 5,
       interest_rate = 1 / 20, d1 = 7 / 20, d2 = 3 / 20\<rparr>))) = 1"
proof -
  have h: "init 1 100 100 (1 / 5) (1 / 20) =
     Inr \<lparr>time_to_maturity = 1, strike_price = 100, current_price = 100, volatility = 1 / 5,
       interest_rate = 1 / 20, d1 = 7 / 20, d2 = 3 / 20\<rparr>"
    by (simp add: init_def validate_inputs_def calculate_d1_d2_def Let_def power2_eq_square)
  show ?thesis
    using h greek_symmetry [OF h prod.collapse [symmetric]] by blast
qed

subsection \<open>Profit and loss\<close>

text \<open>
  C7: for a validly constructed engine with strike \<open>K\<close>, a non-empty spot range and a
  purchase price \<open>\<ge> 0\<close>, \<^verbatim>\<open>calculate_pnl\<close> returns two sequences as long as the spot
  range, whose \<open>i\<close>-th entries are \<open>max 0 (spot - K) - purchase_price\<close> and
  \<open>max 0 (K - spot) - purchase_price\<close> for the \<open>i\<close>-th spot; every other valid engine
  with the same strike returns the same sequences, whatever its maturity, spot,
  volatility and rate.
\<close>

theorem calculate_pnl_values:
  assumes "init T K S v r = Inr self" and "spot_range \<noteq> []" and "0 \<le> purchase_price"
  shows "\<exists>call_pnl put_pnl.
    calculate_pnl self spot_range purchase_price = (Inr (call_pnl, put_pnl), self)
    \<and> length call_pnl = length spot_range \<and> length put_pnl = length spot_range
    \<and> (\<forall>i < length spot_range.
          call_pnl ! i = max 0 (spot_range ! i - K) - purchase_price
          \<and> put_pnl ! i = max 0 (K - spot_range ! i) - purchase_price)
    \<and> (\<forall>T' S' v' r' self'. init T' K S' v' r' = Inr self' \<longrightarrow>
          fst (calculate_pnl self' spot_range purchase_price) = Inr (call_pnl, put_pnl))"
proof -
  have other: "strike_price self' = K" if "init T' K S' v' r' = Inr self'" for T' S' v' r' self'
    using init_Inr_fields(2) [OF that] .
  show ?thesis
    using assms(2,3) init_Inr_fields(2) [OF assms(1)] other
    by (auto simp: calculate_pnl_def Let_def)
qed

theorem calculate_pnl_values_witness:
  "init 1 100 100 (1 / 5) (1 / 20) =
     Inr \<lparr>time_to_maturity = 1, strike_price = 100, current_price = 100, volatility = 1 / 5,
       interest_rate = 1 / 20, d1 = 7 / 20, d2 = 3 / 20\<rparr>
   \<and> [90, 110] \<noteq> ([] :: real list) \<and> (0 :: real) \<le> 5
   \<and> (\<exists>call_pnl put_pnl.
        calculate_pnl \<lparr>time_to_maturity = 1, strike_price = 100, current_price = 100, volatility = 1 / 5,
       interest_rate = 1 / 20, d1 = 7 / 20, d2 = 3 / 20\<rparr> [90, 110] 5 =
          (Inr (call_pnl, put_pnl), \<lparr>time_to_maturity = 1, strike_price = 100, current_price = 100, volatility = 1 / 5,
       interest_rate = 1 / 20, d1 = 7 / 20, d2 = 3 / 20\<rparr>)
        \<and> length call_pnl = length [90, 110 :: real] \<and> length put_pnl = length [90, 110 :: real]
        \<and> (\<forall>i < length [90, 110 :: real].
              call_pnl ! i = max 0 ([90, 110] ! i - 100) - 5
              \<and> put_pnl ! i = max 0 (100 - [90, 110] ! i) - 5)
        \<and> (\<forall>T' S' v' r' self'. init T' 100 S' v' r' = Inr self' \<longrightarrow>
              fst (calculate_pnl self' [90, 110] 5) = Inr (call_pnl, put_pnl)))"
proof -
  have h: "init 1 100 100 (1 / 5) (1 / 20) =
     Inr \<lparr>time_to_maturity = 1, strike_price = 100, current_price = 100, volatility = 1 / 5,
       interest_rate = 1 / 20, d1 = 7 / 20, d2 = 3 / 20\<rparr>"
    by (simp add: init_def validate_inputs_def calculate_d1_d2_def Let_def power2_eq_square)
  have n: "[90, 110] \<noteq> ([] :: real list)" and p: "(0 :: real) \<le> 5"
    by simp_all
  show ?thesis
    using h n p calculate_pnl_values [OF h n p] by blast
qed

text \<open>
  C8: \<^verbatim>\<open>calculate_pnl\<close> fails exactly when the purchase price is negative or the spot
  range is empty, with one error for the purchase price and a different one for the
  empty range; with a purchase price \<open>\<ge> 0\<close> and a non-empty range it returns the two
  sequences; and the engine is the same after the call, failing or not.
\<close>

theorem calculate_pnl_failure:
  "(isl (fst (calculate_pnl self spot_range purchase_price)) \<longleftrightarrow>
      purchase_price < 0 \<or> spot_range = [])
   \<and> (purchase_price < 0 \<longrightarrow> fst (calculate_pnl self spot_range purchase_price) =
        Inl (ValueError ''Purchase price cannot be negative''))
   \<and> (0 \<le> purchase_price \<and> spot_range = [] \<longrightarrow>
        fst (calculate_pnl self spot_range purchase_price) =
        Inl (ValueError ''Spot range cannot be empty''))
   \<and> ValueError ''Purchase price cannot be negative'' \<noteq> ValueError ''Spot range cannot be empty''
   \<and> (0 \<le> purchase_price \<and> spot_range \<noteq> [] \<longrightarrow>
        (\<exists>call_pnl put_pnl. fst (calculate_pnl self spot_range purchase_price) =
           Inr (call_pnl, put_pnl)))
   \<and> snd (calculate_pnl self spot_range purchase_price) = self"
  by (simp add: calculate_pnl_def Let_def)

theorem calculate_pnl_failure_witness:
  "fst (calculate_pnl \<lparr>time_to_maturity = 1, strike_price = 100, current_price = 100, volatility = 1 / 5,
       interest_rate = 1 / 20, d1 = 7 / 20, d2 = 3 / 20\<rparr> [90, 110] (- 1)) =
     Inl (ValueError ''Purchase price cannot be negative'')
   \<and> snd (calculate_pnl \<lparr>time_to_maturity = 1, strike_price = 100, current_price = 100, volatility = 1 / 5,
       interest_rate = 1 / 20, d1 = 7 / 20, d2 = 3 / 20\<rparr> [90, 110] (- 1)) =
     \<lparr>time_to_maturity = 1, strike_price = 100, current_price = 100, volatility = 1 / 5,
       interest_rate = 1 / 20, d1 = 7 / 20, d2 = 3 / 20\<rparr>
   \<and> fst (calculate_pnl \<lparr>time_to_maturity = 1, strike_price = 100, current_price = 100, volatility = 1 / 5,
       interest_rate = 1 / 20, d1 = 7 / 20, d2 = 3 / 20\<rparr> [] 5) =
     Inl (ValueError ''Spot range cannot be empty'')
   \<and> snd (calculate_pnl \<lparr>time_to_maturity = 1, strike_price = 100, current_price = 100, volatility = 1 / 5,
       interest_rate = 1 / 20, d1 = 7 / 20, d2 = 3 / 20\<rparr> [] 5) =
     \<lparr>time_to_maturity = 1, strike_price = 100, current_price = 100, volatility = 1 / 5,
       interest_rate = 1 / 20, d1 = 7 / 20, d2 = 3 / 20\<rparr>
   \<and> \<not> isl (fst (calculate_pnl \<lparr>time_to_maturity = 1, strike_price = 100, current_price = 100, volatility = 1 / 5,
       interest_rate = 1 / 20, d1 = 7 / 20, d2 = 3 / 20\<rparr> [90, 110] 0))
   \<and> (\<exists>call_pnl put_pnl. fst (calculate_pnl \<lparr>time_to_maturity = 1, strike_price = 100, current_price = 100, volatility = 1 / 5,
       interest_rate = 1 / 20, d1 = 7 / 20, d2 = 3 / 20\<rparr> [90, 110] 5) =
         Inr (call_pnl, put_pnl))"
  using calculate_pnl_failure [of "\<lparr>time_to_maturity = 1, strike_price = 100, current_price = 100, volatility = 1 / 5,
       interest_rate = 1 / 20, d1 = 7 / 20, d2 = 3 / 20\<rparr>" "[90, 110]" "- 1"]
    calculate_pnl_failure [of "\<lparr>time_to_maturity = 1, strike_price = 100, current_price = 100, volatility = 1 / 5,
       interest_rate = 1 / 20, d1 = 7 / 20, d2 = 3 / 20\<rparr>" "[]" 5]
    calculate_pnl_failure [of "\<lparr>time_to_maturity = 1, strike_price = 100, current_price = 100, volatility = 1 / 5,
       interest_rate = 1 / 20, d1 = 7 / 20, d2 = 3 / 20\<rparr>" "[90, 110]" 0]
    calculate_pnl_failure [of "\<lparr>time_to_maturity = 1, strike_price = 100, current_price = 100, volatility = 1 / 5,
       interest_rate = 1 / 20, d1 = 7 / 20, d2 = 3 / 20\<rparr>" "[90, 110]" 5]
  by simp

text \<open>
  C9 (PnL monotonicity): for a validly constructed engine, a purchase price \<open>\<ge> 0\<close> and a
  spot range in non-decreasing order, the call sequence returned by
  \<^verbatim>\<open>calculate_pnl\<close> is non-decreasing and the put sequence is non-increasing; the
  sequences are returned whenever the range is not empty.
\<close>

theorem calculate_pnl_monotone:
  assumes "init T K S v r = Inr self" and "0 \<le> purchase_price" and "sorted spot_range"
  shows "(spot_range \<noteq> [] \<longrightarrow>
      (\<exists>call_pnl put_pnl. fst (calculate_pnl self spot_range purchase_price) = Inr (call_pnl, put_pnl)))
    \<and> (\<forall>call_pnl put_pnl.
          fst (calculate_pnl self spot_range purchase_price) = Inr (call_pnl, put_pnl) \<longrightarrow>
          sorted call_pnl \<and> sorted_wrt (\<lambda>a b. b \<le> a) put_pnl)"
  using assms(2) sorted_call_pnl [OF assms(3)] sorted_put_pnl [OF assms(3)]
  by (auto simp: calculate_pnl_def Let_def)

theorem calculate_pnl_monotone_witness:
  "init 1 100 100 (1 / 5) (1 / 20) =
     Inr \<lparr>time_to_maturity = 1, strike_price = 100, current_price = 100, volatility = 1 / 5,
       interest_rate = 1 / 20, d1 = 7 / 20, d2 = 3 / 20\<rparr>
   \<and> (0 :: real) \<le> 5 \<and> sorted [90, 100, 110 :: real] \<and> [90, 100, 110] \<noteq> ([] :: real list)
   \<and> fst (calculate_pnl \<lparr>time_to_maturity = 1, strike_price = 100, current_price = 100, volatility = 1 / 5,
       interest_rate = 1 / 20, d1 = 7 / 20, d2 = 3 / 20\<rparr> [90, 100, 110] 5) = Inr ([- 5, - 5, 5], [5, - 5, - 5])
   \<and> sorted [- 5, - 5, 5 :: real] \<and> sorted_wrt (\<lambda>a b. b \<le> a) [5, - 5, - 5 :: real]"
proof -
  have h: "init 1 100 100 (1 / 5) (1 / 20) =
     Inr \<lparr>time_to_maturity = 1, strike_price = 100, current_price = 100, volatility = 1 / 5,
       interest_rate = 1 / 20, d1 = 7 / 20, d2 = 3 / 20\<rparr>"
    by (simp add: init_def validate_inputs_def calculate_d1_d2_def Let_def power2_eq_square)
  have p: "(0 :: real) \<le> 5" and s: "sorted [90, 100, 110 :: real]"
    and n: "[90, 100, 110] \<noteq> ([] :: real list)"
    by simp_all
  have c: "fst (calculate_pnl \<lparr>time_to_maturity = 1, strike_price = 100, current_price = 100, volatility = 1 / 5,
       interest_rate = 1 / 20, d1 = 7 / 20, d2 = 3 / 20\<rparr> [90, 100, 110] 5) = Inr ([- 5, - 5, 5], [5, - 5, - 5])"
    by (simp add: calculate_pnl_def Let_def)
  show ?thesis
    using h p s n c calculate_pnl_monotone [OF h p s] by blast
qed

text \<open>
  C10: \<^verbatim>\<open>calculate_pnl\<close> tests the purchase price before it looks at the spot range:
  with a negative purchase price the purchase-price error is raised for every range,
  the empty one included, and the empty-range error is raised only with a purchase
  price \<open>\<ge> 0\<close> (and an empty range).
\<close>

theorem calculate_pnl_check_order:
  "(purchase_price < 0 \<longrightarrow>
      fst (calculate_pnl self spot_range purchase_price) =
        Inl (ValueError ''Purchase price cannot be negative'')
      \<and> fst (calculate_pnl self [] purchase_price) =
        Inl (ValueError ''Purchase price cannot be negative''))
   \<and> (fst (calculate_pnl self spot_range purchase_price) =
        Inl (ValueError ''Spot range cannot be empty'') \<longrightarrow>
        0 \<le> purchase_price \<and> spot_range = [])"
  by (auto simp: calculate_pnl_def Let_def split: if_splits)

theorem calculate_pnl_check_order_witness:
  "fst (calculate_pnl \<lparr>time_to_maturity = 1, strike_price = 100, current_price = 100, volatility = 1 / 5,
       interest_rate = 1 / 20, d1 = 7 / 20, d2 = 3 / 20\<rparr> [] (- 1)) =
     Inl (ValueError ''Purchase price cannot be negative'')
   \<and> fst (calculate_pnl \<lparr>time_to_maturity = 1, strike_price = 100, current_price = 100, volatility = 1 / 5,
       interest_rate = 1 / 20, d1 = 7 / 20, d2 = 3 / 20\<rparr> [90, 110] (- 1)) =
     Inl (ValueError ''Purchase price cannot be negative'')
   \<and> fst (calculate_pnl \<lparr>time_to_maturity = 1, strike_price = 100, current_price = 100, volatility = 1 / 5,
       interest_rate = 1 / 20, d1 = 7 / 20, d2 = 3 / 20\<rparr> [] 0) =
     Inl (ValueError ''Spot range cannot be empty'')
   \<and> (0 :: real) \<le> 0"
proof -
  have e: "fst (calculate_pnl \<lparr>time_to_maturity = 1, strike_price = 100, current_price = 100, volatility = 1 / 5,
       interest_rate = 1 / 20, d1 = 7 / 20, d2 = 3 / 20\<rparr> [] 0) =
     Inl (ValueError ''Spot range cannot be empty'')"
    by (simp add: calculate_pnl_def)
  show ?thesis
    using e calculate_pnl_check_order [of "- 1" "\<lparr>time_to_maturity = 1, strike_price = 100, current_price = 100, volatility = 1 / 5,
       interest_rate = 1 / 20, d1 = 7 / 20, d2 = 3 / 20\<rparr>" "[90, 110]"]
      calculate_pnl_check_order [of 0 "\<lparr>time_to_maturity = 1, strike_price = 100, current_price = 100, volatility = 1 / 5,
       interest_rate = 1 / 20, d1 = 7 / 20, d2 = 3 / 20\<rparr>" "[]"]
    by simp
qed

end
